theory Spec2Isabelle
  imports Complex_Main "HOL-Library.Sublist" "HOL-Library.Log_Nat"
begin

section \<open>JavaScript values used by the dashboard\<close>

text \<open>
  A JavaScript number is \<open>NaN\<close>, one of the two infinities, or a finite value; \<open>Fin\<close>
  carries the value of a finite number as a rational (the sign of zero is not part of this
  embedding). \<open>js_sub\<close>, \<open>js_div\<close> and \<open>js_mul\<close> give the exact result of the
  operation, with the results ECMAScript gives on \<open>NaN\<close>, the infinities and a zero
  divisor; \<open>js_div64\<close> and \<open>js_mul64\<close> round that result to binary64 as the engine
  does (\<open>fl64\<close>: to the nearest representable number, a tie to the even significand).
\<close>

datatype jsnum = NaN | PosInfinity | NegInfinity | Fin rat

fun js_neg :: "jsnum \<Rightarrow> jsnum" where
  "js_neg NaN = NaN"
| "js_neg PosInfinity = NegInfinity"
| "js_neg NegInfinity = PosInfinity"
| "js_neg (Fin x) = Fin (- x)"

fun js_sub :: "jsnum \<Rightarrow> jsnum \<Rightarrow> jsnum" where
  "js_sub NaN b = NaN"
| "js_sub a NaN = NaN"
| "js_sub (Fin x) (Fin y) = Fin (x - y)"
| "js_sub (Fin x) PosInfinity = NegInfinity"
| "js_sub (Fin x) NegInfinity = PosInfinity"
| "js_sub PosInfinity PosInfinity = NaN"
| "js_sub PosInfinity b = PosInfinity"
| "js_sub NegInfinity NegInfinity = NaN"
| "js_sub NegInfinity b = NegInfinity"

fun js_div :: "jsnum \<Rightarrow> jsnum \<Rightarrow> jsnum" where
  "js_div NaN b = NaN"
| "js_div a NaN = NaN"
| "js_div (Fin x) (Fin y) =
     (if y = 0 then (if x = 0 then NaN else if 0 < x then PosInfinity else NegInfinity)
      else Fin (x / y))"
| "js_div (Fin x) b = Fin 0"
| "js_div PosInfinity (Fin y) = (if 0 \<le> y then PosInfinity else NegInfinity)"
| "js_div NegInfinity (Fin y) = (if 0 \<le> y then NegInfinity else PosInfinity)"
| "js_div a b = NaN"

fun js_mul :: "jsnum \<Rightarrow> jsnum \<Rightarrow> jsnum" where
  "js_mul NaN b = NaN"
| "js_mul a NaN = NaN"
| "js_mul (Fin x) (Fin y) = Fin (x * y)"
| "js_mul (Fin x) b = (if x = 0 then NaN else if 0 < x then b else js_neg b)"
| "js_mul a (Fin y) = (if y = 0 then NaN else if 0 < y then a else js_neg a)"
| "js_mul PosInfinity b = b"
| "js_mul NegInfinity b = js_neg b"

fun Math_floor :: "jsnum \<Rightarrow> jsnum" where
  "Math_floor (Fin x) = Fin (of_int \<lfloor>x\<rfloor>)"
| "Math_floor a = a"








text \<open>\<open>a <= b\<close>: false as soon as one side is \<open>NaN\<close>.\<close>

fun js_le :: "jsnum \<Rightarrow> jsnum \<Rightarrow> bool" where
  "js_le NaN b = False"
| "js_le a NaN = False"
| "js_le (Fin x) (Fin y) = (x \<le> y)"
| "js_le NegInfinity b = True"
| "js_le a PosInfinity = True"
| "js_le a b = False"

text \<open>
  A field read from a row is a string or \<open>undefined\<close> (\<open>None\<close>). \<open>x || d\<close> yields
  \<open>d\<close> when \<open>x\<close> is falsy: \<open>undefined\<close> or the empty string.
\<close>

definition orElse :: "string option \<Rightarrow> string \<Rightarrow> string" where
  "orElse x d = (case x of None \<Rightarrow> d | Some s \<Rightarrow> if s = [] then d else s)"


text \<open>
  \<open>Array.prototype.includes\<close> on a \<open>string[]\<close>: \<open>undefined\<close> is an element of no array
  of strings.
\<close>

definition arrayIncludes :: "string list \<Rightarrow> string option \<Rightarrow> bool" where
  "arrayIncludes xs v = (case v of None \<Rightarrow> False | Some s \<Rightarrow> s \<in> set xs)"

section \<open>Rows\<close>

text \<open>
  A row is an object keyed by column name (\<open>types.ts\<close>, \<open>EmployeeTrainingRecord\<close> and
  \<open>MergedData\<close>). Every column holds a string, except the two the loader turns into
  numbers. The code reads columns that the interface does not declare
  (\<open>completion_status\<close>, \<open>completion_date\<close>) and tests columns for absence, so the string
  columns are a map from the column name; an absent column reads as \<open>undefined\<close>.
\<close>

record TrainingRow =
  cols :: "string \<rightharpoonup> string"
  course_completion_hours :: jsnum
  course_progress :: jsnum

record StoreRecord =
  Store_ID :: string
  location :: string
  Region :: string
  AM :: string
  Trainer :: string

section \<open>Tenure classification (\<open>calculateTenure\<close>)\<close>

text \<open>
  \<open>new Date(x).getTime()\<close>: the time value in milliseconds, or \<open>NaN\<close> for an invalid date.
  \<open>Date.parse\<close> is the engine's; it is the parameter \<open>parseDate\<close>, \<open>None\<close> standing for
  an unparseable string. \<open>new Date(undefined)\<close> is an invalid date.
\<close>

definition getTime :: "(string \<Rightarrow> int option) \<Rightarrow> string option \<Rightarrow> jsnum" where
  "getTime parseDate d =
     (case d of None \<Rightarrow> NaN
      | Some s \<Rightarrow> (case parseDate s of None \<Rightarrow> NaN | Some t \<Rightarrow> Fin (of_int t)))"

text \<open>
  \<open>new Date()\<close> reads the clock; the instant read is the parameter \<open>now\<close> (milliseconds).
  The dashboard and the two tenure charts carry the same function text. Time values are
  integers, and \<open>Math.floor\<close> of the binary64 quotient by 86400000 is the floor of the
  exact quotient whenever the two instants are less than \<open>2^53\<close> milliseconds apart: the
  quotient is then either an integer, which binary64 holds exactly, or at least
  \<open>1/86400000\<close> away from every integer, which is more than its rounding error.
\<close>

definition calculateTenure :: "(string \<Rightarrow> int option) \<Rightarrow> int \<Rightarrow> string option \<Rightarrow> string" where
  "calculateTenure parseDate now dateOfJoining =
     (let joinDate = getTime parseDate dateOfJoining;
          currentDate = Fin (of_int now);
          daysDiff = Math_floor (js_div (js_sub currentDate joinDate) (Fin (1000 * 60 * 60 * 24)))
      in if js_le daysDiff (Fin 4) then ''1-4 days''
         else if js_le daysDiff (Fin 15) then ''5-15 days''
         else if js_le daysDiff (Fin 30) then ''16-30 days''
         else ''over a month'')"

section \<open>Filter evaluation (\<open>filteredData\<close> of the dashboard)\<close>

record FilterSelection =
  selectedTenure :: "string list"
  selectedStore :: "string list"
  selectedAreaManager :: "string list"
  selectedTrainer :: "string list"
  selectedCourse :: "string list"
  selectedDesignation :: "string list"

text \<open>The callback of \<open>data.filter\<close>: one early \<open>return false\<close> per dimension.\<close>

definition keepItem ::
  "(string \<Rightarrow> int option) \<Rightarrow> int \<Rightarrow> bool \<Rightarrow> FilterSelection \<Rightarrow> TrainingRow \<Rightarrow> bool" where
  "keepItem parseDate now isMerged sel item =
     (if selectedTenure sel \<noteq> [] \<and>
         \<not> arrayIncludes (selectedTenure sel)
             (Some (calculateTenure parseDate now (cols item ''date_of_joining'')))
      then False
      else if selectedStore sel \<noteq> [] \<and>
         \<not> arrayIncludes (selectedStore sel)
             (if isMerged then cols item ''location'' else Some ''Unknown'')
      then False
      else if selectedAreaManager sel \<noteq> [] \<and>
         \<not> arrayIncludes (selectedAreaManager sel)
             (if isMerged then cols item ''AM'' else Some ''Unknown'')
      then False
      else if selectedTrainer sel \<noteq> [] \<and>
         \<not> arrayIncludes (selectedTrainer sel)
             (if isMerged then cols item ''Trainer'' else Some ''Unknown'')
      then False
      else if selectedCourse sel \<noteq> [] \<and>
         \<not> arrayIncludes (selectedCourse sel) (Some (orElse (cols item ''course_name'') ''Unknown''))
      then False
      else if selectedDesignation sel \<noteq> [] \<and>
         \<not> arrayIncludes (selectedDesignation sel) (Some (orElse (cols item ''designation'') ''Unknown''))
      then False
      else True)"

definition filteredData ::
  "(string \<Rightarrow> int option) \<Rightarrow> int \<Rightarrow> bool \<Rightarrow> FilterSelection \<Rightarrow> TrainingRow list
     \<Rightarrow> TrainingRow list" where
  "filteredData parseDate now isMerged sel data =
     filter (keepItem parseDate now isMerged sel) data"

text \<open>
  The specification's reading of the filter, for comparison with \<open>filteredData\<close>: six
  dimensions, each with a selection and, for a row, a value; a row satisfies a selection
  when every dimension whose selection is non-empty holds the row's value.
\<close>

datatype dimension =
  DimTenure | DimStore | DimAreaManager | DimTrainer | DimCourse | DimDesignation

definition allDimensions :: "dimension list" where
  "allDimensions = [DimTenure, DimStore, DimAreaManager, DimTrainer, DimCourse, DimDesignation]"

fun selection :: "FilterSelection \<Rightarrow> dimension \<Rightarrow> string list" where
  "selection sel DimTenure = selectedTenure sel"
| "selection sel DimStore = selectedStore sel"
| "selection sel DimAreaManager = selectedAreaManager sel"
| "selection sel DimTrainer = selectedTrainer sel"
| "selection sel DimCourse = selectedCourse sel"
| "selection sel DimDesignation = selectedDesignation sel"

text \<open>
  The value the filter compares for a dimension, as the code computes it; \<open>None\<close> is
  \<open>undefined\<close>, the value of a directory column that the row does not have.
\<close>

fun dimensionValue ::
  "(string \<Rightarrow> int option) \<Rightarrow> int \<Rightarrow> bool \<Rightarrow> dimension \<Rightarrow> TrainingRow \<Rightarrow> string option" where
  "dimensionValue parseDate now isMerged DimTenure item =
     Some (calculateTenure parseDate now (cols item ''date_of_joining''))"
| "dimensionValue parseDate now isMerged DimStore item =
     (if isMerged then cols item ''location'' else Some ''Unknown'')"
| "dimensionValue parseDate now isMerged DimAreaManager item =
     (if isMerged then cols item ''AM'' else Some ''Unknown'')"
| "dimensionValue parseDate now isMerged DimTrainer item =
     (if isMerged then cols item ''Trainer'' else Some ''Unknown'')"
| "dimensionValue parseDate now isMerged DimCourse item =
     Some (orElse (cols item ''course_name'') ''Unknown'')"
| "dimensionValue parseDate now isMerged DimDesignation item =
     Some (orElse (cols item ''designation'') ''Unknown'')"

definition satisfiesSelection ::
  "(string \<Rightarrow> int option) \<Rightarrow> int \<Rightarrow> bool \<Rightarrow> FilterSelection \<Rightarrow> TrainingRow \<Rightarrow> bool" where
  "satisfiesSelection parseDate now isMerged sel item =
     list_all (\<lambda>d. selection sel d = [] \<or>
                  dimensionValue parseDate now isMerged d item \<in> Some ` set (selection sel d))
       allDimensions"

definition noSelection :: FilterSelection where
  "noSelection = \<lparr>selectedTenure = [], selectedStore = [], selectedAreaManager = [],
     selectedTrainer = [], selectedCourse = [], selectedDesignation = []\<rparr>"




section \<open>Row normalisation (the row mapper handed to \<open>csvParse\<close>)\<close>

text \<open>
  A \<open>char\<close> is one code unit below 256. \<open>\s\<close>, \<open>trim\<close> and the leading-blank
  skipping of \<open>parseFloat\<close> agree on the white space in that range: tab, line feed,
  vertical tab, form feed, carriage return, space and no-break space.
\<close>

definition isSpace :: "char \<Rightarrow> bool" where
  "isSpace c = (of_char c \<in> {9, 10, 11, 12, 13, 32, 160 :: nat})"

definition isDigit :: "char \<Rightarrow> bool" where
  "isDigit c = (48 \<le> (of_char c :: nat) \<and> (of_char c :: nat) \<le> 57)"

definition trim :: "string \<Rightarrow> string" where
  "trim s = rev (dropWhile isSpace (rev (dropWhile isSpace s)))"

text \<open>\<open>replace(/\s+/g, ' ')\<close>: every maximal run of white space becomes one space.\<close>

function collapseSpaces :: "string \<Rightarrow> string" where
  "collapseSpaces [] = []"
| "collapseSpaces (c # cs) =
     (if isSpace c then CHR '' '' # collapseSpaces (dropWhile isSpace cs)
      else c # collapseSpaces cs)"
  by pat_completeness auto
termination
  by (relation "measure length") (auto simp: length_dropWhile_le less_Suc_eq_le)

definition cleanKey :: "string \<Rightarrow> string" where
  "cleanKey key = collapseSpaces (trim key)"

text \<open>
  The raw row \<open>d\<close> that \<open>csvParse\<close> hands over: column names and cell texts, in the
  order \<open>for (const key in d)\<close> visits them. A later key that cleans to the same name
  overwrites the earlier one.
\<close>

definition cleanedD :: "(string \<times> string) list \<Rightarrow> (string \<rightharpoonup> string)" where
  "cleanedD d = foldl (\<lambda>acc (key, v). acc(cleanKey key \<mapsto> v)) Map.empty d"

text \<open>
  \<open>parseFloat\<close> (ECMA-262): skip leading white space, take the longest prefix that is a
  \<open>StrDecimalLiteral\<close> (sign, then \<open>Infinity\<close> or digits with an optional fraction and
  exponent), and return \<open>NaN\<close> when there is none. The value is the exact decimal value.
\<close>

definition digitsVal :: "string \<Rightarrow> nat" where
  "digitsVal ds = foldl (\<lambda>n c. 10 * n + (of_char c - 48)) 0 ds"

definition exponentPart :: "string \<Rightarrow> int" where
  "exponentPart r =
     (case r of [] \<Rightarrow> 0
      | c # t \<Rightarrow>
          if c = CHR ''e'' \<or> c = CHR ''E'' then
            (case t of [] \<Rightarrow> 0
             | s # u \<Rightarrow>
                 if s = CHR ''+'' then int (digitsVal (takeWhile isDigit u))
                 else if s = CHR ''-'' then - int (digitsVal (takeWhile isDigit u))
                 else int (digitsVal (takeWhile isDigit t)))
          else 0)"

definition parseUnsigned :: "string \<Rightarrow> jsnum" where
  "parseUnsigned s =
     (if take 8 s = ''Infinity'' then PosInfinity
      else
        let ip = takeWhile isDigit s;
            r1 = dropWhile isDigit s;
            fp = (case r1 of [] \<Rightarrow> [] | c # t \<Rightarrow> if c = CHR ''.'' then takeWhile isDigit t else []);
            r2 = (case r1 of [] \<Rightarrow> [] | c # t \<Rightarrow> if c = CHR ''.'' then dropWhile isDigit t else r1)
        in if ip = [] \<and> fp = [] then NaN
           else Fin ((of_nat (digitsVal ip) + of_nat (digitsVal fp) / 10 ^ length fp)
                     * 10 powi exponentPart r2))"

definition parseFloat :: "string \<Rightarrow> jsnum" where
  "parseFloat s =
     (case dropWhile isSpace s of [] \<Rightarrow> NaN
      | c # t \<Rightarrow>
          if c = CHR ''-'' then js_neg (parseUnsigned t)
          else if c = CHR ''+'' then parseUnsigned t
          else parseUnsigned (c # t))"

text \<open>
  The mapper of \<open>loadCSVData\<close> and \<open>handleAdminFileUpload\<close> (the same text twice):
  the cleaned row, with three columns overwritten. \<open>x ? parseFloat(x) : 0\<close> takes the
  \<open>0\<close> branch when the cell is absent or empty; \<open>replace('%', '')\<close> removes the first
  \<open>%\<close> of the text.
\<close>

definition normalizeRow :: "(string \<times> string) list \<Rightarrow> TrainingRow" where
  "normalizeRow d =
     (let c = cleanedD d
      in \<lparr>cols = (c |` (- {''course_completion_hours'', ''course_progress''}))
                   (''course_completion_status'' \<mapsto>
                      (if c ''course_completion_status'' = Some ''Completed'' then ''Completed''
                       else ''Not Completed'')),
          course_completion_hours =
            (case c ''course_completion_hours'' of None \<Rightarrow> Fin 0
             | Some v \<Rightarrow> if v \<noteq> [] then parseFloat v else Fin 0),
          course_progress =
            (case c ''course_progress'' of None \<Rightarrow> Fin 0
             | Some v \<Rightarrow> if v \<noteq> [] then parseFloat (remove1 CHR ''%'' v) else Fin 0)\<rparr>)"

section \<open>Directory merge (\<open>mergeWithStoreData\<close>)\<close>

text \<open>
  \<open>storeMappingData\<close> (\<open>data/storeMapping\<close>) is the parameter \<open>storeMappingData\<close>. The
  \<open>Map\<close> constructor inserts the entries in order, so of two entries with one store
  identifier the later one is kept.
\<close>

definition storeMap :: "StoreRecord list \<Rightarrow> (string \<rightharpoonup> (string \<rightharpoonup> string))" where
  "storeMap storeMappingData =
     foldl (\<lambda>m s. m(Store_ID s \<mapsto>
              [''location'' \<mapsto> location s, ''Region'' \<mapsto> Region s,
               ''AM'' \<mapsto> AM s, ''Trainer'' \<mapsto> Trainer s]))
       Map.empty storeMappingData"

text \<open>
  \<open>{ ...emp, ...storeInfo }\<close>: the columns of \<open>emp\<close>, overwritten by those of
  \<open>storeInfo\<close>; spreading \<open>undefined\<close> adds nothing.
\<close>

definition mergeWithStoreData :: "StoreRecord list \<Rightarrow> TrainingRow list \<Rightarrow> TrainingRow list" where
  "mergeWithStoreData storeMappingData data =
     map (\<lambda>emp.
            let storeInfo =
                  (case cols emp ''Store ID'' of None \<Rightarrow> None
                   | Some sid \<Rightarrow> if sid \<noteq> [] then storeMap storeMappingData sid else None)
            in case storeInfo of None \<Rightarrow> emp
               | Some info \<Rightarrow> emp\<lparr>cols := cols emp ++ info\<rparr>)
       data"

section \<open>Completion rate by trainer (\<open>TrainerCompletionChart\<close>)\<close>

record Tally =
  total :: nat
  completed :: nat

text \<open>
  The accumulator of \<open>data.reduce\<close> is a plain object \<open>{}\<close>: its own properties are
  the association list, in insertion order, and a read \<open>acc[trainer]\<close> of a name that is
  not an own property falls through to \<open>Object.prototype\<close>. The names found there all
  hold an object or a function, which is truthy: for such a trainer name the code creates
  no own property, and \<open>total++\<close> lands on the inherited object.
\<close>

definition objectPrototypeKeys :: "string list" where
  "objectPrototypeKeys =
     [''constructor'', ''__proto__'', ''hasOwnProperty'', ''isPrototypeOf'',
      ''propertyIsEnumerable'', ''toLocaleString'', ''toString'', ''valueOf'',
      ''__defineGetter__'', ''__defineSetter__'', ''__lookupGetter__'', ''__lookupSetter__'']"

definition hasOwn :: "('k \<times> 'v) list \<Rightarrow> 'k \<Rightarrow> bool" where
  "hasOwn obj k = (k \<in> fst ` set obj)"

fun updateEntry :: "'k \<Rightarrow> ('v \<Rightarrow> 'v) \<Rightarrow> ('k \<times> 'v) list \<Rightarrow> ('k \<times> 'v) list" where
  "updateEntry k f [] = []"
| "updateEntry k f ((k', v) # ps) =
     (if k' = k then (k', f v) # ps else (k', v) # updateEntry k f ps)"

definition countRecord :: "bool \<Rightarrow> Tally \<Rightarrow> Tally" where
  "countRecord isCompleted t =
     (let t1 = t\<lparr>total := total t + 1\<rparr>
      in if isCompleted then t1\<lparr>completed := completed t1 + 1\<rparr> else t1)"

text \<open>
  The reducer of the trainer chart. The region, store, course and department charts carry
  the same reducer text with another key expression (\<open>record.Region || 'Unknown'\<close>,
  \<open>record.location || 'Unknown'\<close>, ...), so the key expression is the parameter
  \<open>keyOf\<close>.
\<close>

definition tallyStep ::
  "(TrainingRow \<Rightarrow> string) \<Rightarrow> (string \<times> Tally) list \<Rightarrow> TrainingRow \<Rightarrow> (string \<times> Tally) list" where
  "tallyStep keyOf acc record =
     (let key = keyOf record;
          isCompleted = (cols record ''course_completion_status'' = Some ''Completed'')
      in if hasOwn acc key then updateEntry key (countRecord isCompleted) acc
         else if key \<in> set objectPrototypeKeys then acc
         else acc @ [(key, countRecord isCompleted \<lparr>total = 0, completed = 0\<rparr>)])"

definition tallyBy :: "(TrainingRow \<Rightarrow> string) \<Rightarrow> TrainingRow list \<Rightarrow> (string \<times> Tally) list" where
  "tallyBy keyOf data = foldl (tallyStep keyOf) [] data"

definition trainerData :: "TrainingRow list \<Rightarrow> (string \<times> Tally) list" where
  "trainerData data = tallyBy (\<lambda>record. orElse (cols record ''Trainer'') ''Unknown'') data"

text \<open>
  \<open>Object.keys\<close>: the own keys that are array indices (canonical decimal numerals below
  \<open>2^32 - 1\<close>) in ascending numeric order, then the other keys in insertion order.
\<close>

definition isArrayIndex :: "string \<Rightarrow> bool" where
  "isArrayIndex k =
     (k \<noteq> [] \<and> list_all isDigit k \<and> (k = ''0'' \<or> hd k \<noteq> CHR ''0'') \<and>
      digitsVal k < 2 ^ 32 - 1)"

text \<open>
  \<open>Object.keys(obj).map(k => f(k, obj[k]))\<close> visits the own properties in the order of
  \<open>Object.keys\<close>, and every key it reads back is an own property: \<open>objectEntries\<close> is
  the list of the properties in that order.
\<close>

definition objectEntries :: "(string \<times> 'v) list \<Rightarrow> (string \<times> 'v) list" where
  "objectEntries obj =
     sort_key (\<lambda>p. digitsVal (fst p)) (filter (\<lambda>p. isArrayIndex (fst p)) obj)
       @ filter (\<lambda>p. \<not> isArrayIndex (fst p)) obj"

text \<open>
  \<open>Array.prototype.sort\<close> with a comparator is stable; \<open>x\<close> moves behind \<open>y\<close> only
  when \<open>cmp(x, y) > 0\<close>, and a comparator result of \<open>NaN\<close> counts as \<open>0\<close>.
\<close>

fun js_pos :: "jsnum \<Rightarrow> bool" where
  "js_pos (Fin x) = (0 < x)"
| "js_pos PosInfinity = True"
| "js_pos a = False"

fun insertBy :: "('a \<Rightarrow> 'a \<Rightarrow> jsnum) \<Rightarrow> 'a \<Rightarrow> 'a list \<Rightarrow> 'a list" where
  "insertBy cmp x [] = [x]"
| "insertBy cmp x (y # ys) =
     (if js_pos (cmp x y) then y # insertBy cmp x ys else x # y # ys)"

definition sortBy :: "('a \<Rightarrow> 'a \<Rightarrow> jsnum) \<Rightarrow> 'a list \<Rightarrow> 'a list" where
  "sortBy cmp xs = foldr (insertBy cmp) xs []"

record ChartEntry =
  name :: string
  Completion_Rate :: jsnum

text \<open>\<open>(completed / total) * 100\<close>.\<close>

definition completionRate :: "Tally \<Rightarrow> jsnum" where
  "completionRate t = js_mul (js_div (Fin (of_nat (completed t))) (Fin (of_nat (total t)))) (Fin 100)"

definition chartRows :: "(string \<times> Tally) list \<Rightarrow> ChartEntry list" where
  "chartRows obj =
     sortBy (\<lambda>a b. js_sub (Completion_Rate b) (Completion_Rate a))
       (map (\<lambda>(key, t). \<lparr>name = key, Completion_Rate = completionRate t\<rparr>)
          (objectEntries obj))"

definition chartData :: "TrainingRow list \<Rightarrow> ChartEntry list" where
  "chartData data = chartRows (trainerData data)"

section \<open>Employee rollup (\<open>employeeCompletionRates\<close> of the dashboard)\<close>



text \<open>
  The two counters are integers, which binary64 holds exactly below \<open>2^53\<close>. The rate
  \<open>Math.round((emp.completed_courses / emp.total_courses) * 100)\<close> is computed in binary64:
  the quotient is rounded, then the product, and \<open>Math.round\<close> is applied to the rounded
  product. The roundings matter at the ties of \<open>Math.round\<close>: for 23 of 40 the product is
  \<open>57.49999999999999\<close> and the rate 57, where the exact percentage \<open>57.5\<close> would give 58.
\<close>






section \<open>Invariants of the two grouping loops\<close>

text \<open>
  What holds of the accumulator after the rows \<open>processed\<close>: the keys are distinct and are
  the keys of the rows seen, and the entry of a key counts the rows seen with that key.
\<close>

definition tallyOk :: "(TrainingRow \<Rightarrow> string) \<Rightarrow> TrainingRow list \<Rightarrow> string \<Rightarrow> Tally \<Rightarrow> bool" where
  "tallyOk keyOf processed k t =
     (total t = length (filter (\<lambda>record. keyOf record = k) processed) \<and>
      completed t =
        length (filter (\<lambda>record. keyOf record = k \<and>
                          cols record ''course_completion_status'' = Some ''Completed'') processed))"

definition tallyInv ::
  "(TrainingRow \<Rightarrow> string) \<Rightarrow> TrainingRow list \<Rightarrow> (string \<times> Tally) list \<Rightarrow> bool" where
  "tallyInv keyOf processed acc =
     (distinct (map fst acc) \<and>
      set (map fst acc) = set (map keyOf processed) - set objectPrototypeKeys \<and>
      (\<forall>k t. map_of acc k = Some t \<longrightarrow> tallyOk keyOf processed k t))"



section \<open>Sample data\<close>

text \<open>
  The rows of the specification's end-to-end scenario (two enrolments of \<open>E1\<close> at store
  \<open>S1\<close>, one of \<open>E2\<close> at the unmapped store \<open>S2\<close>), a row without a store
  identifier, a directory that maps \<open>S1\<close> only, and an evaluation instant
  (\<open>2026-11-01T00:00:00Z\<close>) with the time values of five dates before it.
\<close>

definition sampleNow :: int where
  "sampleNow = 1793491200000"

definition sampleParseDate :: "string \<Rightarrow> int option" where
  "sampleParseDate =
     map_of [(''2026-10-28'', 1793145600000), (''2026-10-27'', 1793059200000),
             (''2026-10-17'', 1792195200000), (''2026-10-16'', 1792108800000),
             (''2026-10-01'', 1790812800000)]"

definition rowA :: TrainingRow where
  "rowA = \<lparr>cols = [''employee_code'' \<mapsto> ''E1'', ''employee_name'' \<mapsto> ''Ann'',
                     ''designation'' \<mapsto> ''Clerk'', ''date_of_joining'' \<mapsto> ''2026-10-28'',
                     ''course_name'' \<mapsto> ''Safety'', ''course_completion_status'' \<mapsto> ''Completed'',
                     ''Store ID'' \<mapsto> ''S1''],
            course_completion_hours = Fin 2, course_progress = Fin 100\<rparr>"

definition rowB :: TrainingRow where
  "rowB = \<lparr>cols = [''employee_code'' \<mapsto> ''E1'', ''employee_name'' \<mapsto> ''Ann'',
                     ''designation'' \<mapsto> ''Clerk'', ''date_of_joining'' \<mapsto> ''2026-10-28'',
                     ''course_name'' \<mapsto> ''Hygiene'', ''course_completion_status'' \<mapsto> ''Not Completed'',
                     ''Store ID'' \<mapsto> ''S1''],
            course_completion_hours = Fin 0, course_progress = Fin 40\<rparr>"

definition rowC :: TrainingRow where
  "rowC = \<lparr>cols = [''employee_code'' \<mapsto> ''E2'', ''employee_name'' \<mapsto> ''Bo'',
                     ''designation'' \<mapsto> ''Lead'', ''date_of_joining'' \<mapsto> ''2026-10-01'',
                     ''course_name'' \<mapsto> ''Safety'', ''course_completion_status'' \<mapsto> ''Completed'',
                     ''Store ID'' \<mapsto> ''S2''],
            course_completion_hours = Fin 1, course_progress = Fin 100\<rparr>"

definition rowD :: TrainingRow where
  "rowD = \<lparr>cols = [''employee_code'' \<mapsto> ''E3'', ''employee_name'' \<mapsto> ''Cy'',
                     ''designation'' \<mapsto> ''Clerk'', ''course_name'' \<mapsto> ''Safety'',
                     ''course_completion_status'' \<mapsto> ''Not Completed''],
            course_completion_hours = Fin 0, course_progress = Fin 0\<rparr>"



definition sampleDirectory :: "StoreRecord list" where
  "sampleDirectory = [\<lparr>Store_ID = ''S1'', location = ''Downtown'', Region = ''North'',
                        AM = ''Asha'', Trainer = ''Ravi''\<rparr>]"

section \<open>Tenure classification: boundaries and fallback\<close>

lemma calculateTenure_days:
  assumes "parseDate s = Some (now - n * 86400000)"
  shows "calculateTenure parseDate now (Some s) =
           (if n \<le> 4 then ''1-4 days'' else if n \<le> 15 then ''5-15 days''
            else if n \<le> 30 then ''16-30 days'' else ''over a month'')"
  using assms by (simp add: calculateTenure_def getTime_def Let_def)

text \<open>
  C5. A date of joining exactly 4 whole days before the evaluation instant is classified
  \<open>1-4 days\<close>; exactly 5 days and exactly 15 days \<open>5-15 days\<close>; exactly 16 days
  \<open>16-30 days\<close>; exactly 31 days \<open>over a month\<close>. The day count is the floor of the
  difference of the two time values divided by 86400000; a whole number of days divides
  exactly, in binary64 as in the rationals.
\<close>

theorem calculateTenure_boundaries:
  assumes "parseDate s4 = Some (now - 4 * 86400000)"
    and "parseDate s5 = Some (now - 5 * 86400000)"
    and "parseDate s15 = Some (now - 15 * 86400000)"
    and "parseDate s16 = Some (now - 16 * 86400000)"
    and "parseDate s31 = Some (now - 31 * 86400000)"
  shows "calculateTenure parseDate now (Some s4) = ''1-4 days'' \<and>
         calculateTenure parseDate now (Some s5) = ''5-15 days'' \<and>
         calculateTenure parseDate now (Some s15) = ''5-15 days'' \<and>
         calculateTenure parseDate now (Some s16) = ''16-30 days'' \<and>
         calculateTenure parseDate now (Some s31) = ''over a month''"
  using assms by (simp add: calculateTenure_days)

text \<open>The five boundaries of C5 at the sample instant.\<close>

theorem calculateTenure_boundaries_witness:
  "calculateTenure sampleParseDate sampleNow (Some ''2026-10-28'') = ''1-4 days'' \<and>
   calculateTenure sampleParseDate sampleNow (Some ''2026-10-27'') = ''5-15 days'' \<and>
   calculateTenure sampleParseDate sampleNow (Some ''2026-10-17'') = ''5-15 days'' \<and>
   calculateTenure sampleParseDate sampleNow (Some ''2026-10-16'') = ''16-30 days'' \<and>
   calculateTenure sampleParseDate sampleNow (Some ''2026-10-01'') = ''over a month''"
  by (rule calculateTenure_boundaries) (simp_all add: sampleParseDate_def sampleNow_def)

text \<open>
  C6. An unparseable date of joining (its time value is \<open>NaN\<close>, and so is the day
  count) is classified \<open>over a month\<close>, and so is an absent one: every comparison with
  \<open>NaN\<close> is false, so the three \<open>if\<close>s fall through. Whatever the input, the result
  is one of the four bucket labels, which are pairwise distinct.
\<close>

theorem calculateTenure_fallback:
  "(parseDate s = None \<longrightarrow> calculateTenure parseDate now (Some s) = ''over a month'') \<and>
   calculateTenure parseDate now None = ''over a month'' \<and>
   calculateTenure parseDate now d \<in> {''1-4 days'', ''5-15 days'', ''16-30 days'', ''over a month''} \<and>
   distinct [''1-4 days'', ''5-15 days'', ''16-30 days'', ''over a month'']"
  by (simp add: calculateTenure_def getTime_def Let_def)

text \<open>C6 at a string the sample parser rejects.\<close>

theorem calculateTenure_fallback_witness:
  "sampleParseDate ''31/31/2026'' = None \<and>
   calculateTenure sampleParseDate sampleNow (Some ''31/31/2026'') = ''over a month''"
  using calculateTenure_fallback [of sampleParseDate "''31/31/2026''" sampleNow]
  by (simp add: sampleParseDate_def)

section \<open>Filter evaluation\<close>

lemma arrayIncludes_image: "arrayIncludes xs v = (v \<in> Some ` set xs)"
  by (cases v) (auto simp: arrayIncludes_def)

lemma if_False_else: "(if c then False else b) = (\<not> c \<and> b)"
  by simp

lemma keepItem_satisfies:
  "keepItem parseDate now isMerged sel item = satisfiesSelection parseDate now isMerged sel item"
  unfolding keepItem_def satisfiesSelection_def allDimensions_def arrayIncludes_image
    if_False_else
  by (simp only: list.pred_inject selection.simps dimensionValue.simps de_Morgan_conj not_not
      simp_thms)

text \<open>
  C1. The filter returns the rows of the input, in the input's order, that satisfy the
  selection: a row is in the output if and only if it is in the input and, for each of the
  six dimensions whose selection is non-empty, the row's value for that dimension is one of
  the selected values. The value of a dimension is what the code compares
  (\<open>dimensionValue\<close>).
\<close>

theorem filteredData_spec:
  "filteredData parseDate now isMerged sel data =
     filter (satisfiesSelection parseDate now isMerged sel) data \<and>
   subseq (filteredData parseDate now isMerged sel data) data \<and>
   (item \<in> set (filteredData parseDate now isMerged sel data) \<longleftrightarrow>
      item \<in> set data \<and> satisfiesSelection parseDate now isMerged sel item)"
  by (simp add: filteredData_def keepItem_satisfies [abs_def])

text \<open>
  C1 on the sample rows: tenure \<open>1-4 days\<close> or \<open>5-15 days\<close> and course \<open>Safety\<close>
  keep the first row only.
\<close>

theorem filteredData_spec_witness:
  "filteredData sampleParseDate sampleNow False
     (noSelection\<lparr>selectedTenure := [''1-4 days'', ''5-15 days''], selectedCourse := [''Safety'']\<rparr>)
     [rowA, rowB, rowC] = [rowA]"
proof -
  have "filteredData sampleParseDate sampleNow False
     (noSelection\<lparr>selectedTenure := [''1-4 days'', ''5-15 days''], selectedCourse := [''Safety'']\<rparr>)
     [rowA, rowB, rowC]
    = filter (satisfiesSelection sampleParseDate sampleNow False
        (noSelection\<lparr>selectedTenure := [''1-4 days'', ''5-15 days''], selectedCourse := [''Safety'']\<rparr>))
        [rowA, rowB, rowC]"
    using filteredData_spec by (rule conjunct1)
  also have "\<dots> = [rowA]"
    by (simp add: satisfiesSelection_def allDimensions_def noSelection_def rowA_def rowB_def
        rowC_def orElse_def calculateTenure_def getTime_def sampleParseDate_def sampleNow_def)
  finally show ?thesis .
qed

lemma filteredData_unconstrained:
  "filteredData parseDate now isMerged noSelection data = data"
  by (simp add: filteredData_def keepItem_def noSelection_def)

text \<open>
  C2. With all six selections empty the filter returns its input, unchanged in order and
  content.
\<close>

theorem filteredData_identity:
  "filteredData parseDate now isMerged
     \<lparr>selectedTenure = [], selectedStore = [], selectedAreaManager = [],
      selectedTrainer = [], selectedCourse = [], selectedDesignation = []\<rparr> data = data"
  using filteredData_unconstrained [of parseDate now isMerged data]
  by (simp add: noSelection_def)

text \<open>C2 on the sample rows.\<close>

theorem filteredData_identity_witness:
  "filteredData sampleParseDate sampleNow True
     \<lparr>selectedTenure = [], selectedStore = [], selectedAreaManager = [],
      selectedTrainer = [], selectedCourse = [], selectedDesignation = []\<rparr>
     [rowA, rowB, rowC] = [rowA, rowB, rowC]"
  by (rule filteredData_identity)

lemma keepItem_unmerged_store:
  "selectedStore sel \<noteq> [] \<Longrightarrow>
   keepItem parseDate now False sel item =
     (''Unknown'' \<in> set (selectedStore sel) \<and>
      keepItem parseDate now False (sel\<lparr>selectedStore := []\<rparr>) item)"
  unfolding keepItem_def if_False_else by (simp add: arrayIncludes_def) blast

lemma keepItem_unmerged_areaManager:
  "selectedAreaManager sel \<noteq> [] \<Longrightarrow>
   keepItem parseDate now False sel item =
     (''Unknown'' \<in> set (selectedAreaManager sel) \<and>
      keepItem parseDate now False (sel\<lparr>selectedAreaManager := []\<rparr>) item)"
  unfolding keepItem_def if_False_else by (simp add: arrayIncludes_def) blast

lemma keepItem_unmerged_trainer:
  "selectedTrainer sel \<noteq> [] \<Longrightarrow>
   keepItem parseDate now False sel item =
     (''Unknown'' \<in> set (selectedTrainer sel) \<and>
      keepItem parseDate now False (sel\<lparr>selectedTrainer := []\<rparr>) item)"
  unfolding keepItem_def if_False_else by (simp add: arrayIncludes_def) blast

lemma filter_const_conj: "filter (\<lambda>x. c \<and> P x) xs = (if c then filter P xs else [])"
  by simp

text \<open>
  C10. On a dataset that is not directory-merged (\<open>isMerged = false\<close>) the filter compares
  the constant \<open>Unknown\<close> for the store, area-manager and trainer dimensions. So a
  non-empty selection on one of the three keeps what the other selections keep when
  \<open>Unknown\<close> is among the selected values, and nothing when it is not.
\<close>

theorem filteredData_unmerged:
  "(selectedStore sel \<noteq> [] \<longrightarrow>
      filteredData parseDate now False sel data =
        (if ''Unknown'' \<in> set (selectedStore sel)
         then filteredData parseDate now False (sel\<lparr>selectedStore := []\<rparr>) data else [])) \<and>
   (selectedAreaManager sel \<noteq> [] \<longrightarrow>
      filteredData parseDate now False sel data =
        (if ''Unknown'' \<in> set (selectedAreaManager sel)
         then filteredData parseDate now False (sel\<lparr>selectedAreaManager := []\<rparr>) data else [])) \<and>
   (selectedTrainer sel \<noteq> [] \<longrightarrow>
      filteredData parseDate now False sel data =
        (if ''Unknown'' \<in> set (selectedTrainer sel)
         then filteredData parseDate now False (sel\<lparr>selectedTrainer := []\<rparr>) data else []))"
proof (intro conjI impI)
  assume a: "selectedStore sel \<noteq> []"
  have "keepItem parseDate now False sel =
          (\<lambda>item. ''Unknown'' \<in> set (selectedStore sel) \<and>
                   keepItem parseDate now False (sel\<lparr>selectedStore := []\<rparr>) item)"
    by (rule ext) (rule keepItem_unmerged_store [OF a])
  then show "filteredData parseDate now False sel data =
        (if ''Unknown'' \<in> set (selectedStore sel)
         then filteredData parseDate now False (sel\<lparr>selectedStore := []\<rparr>) data else [])"
    unfolding filteredData_def by (simp only: filter_const_conj)
next
  assume a: "selectedAreaManager sel \<noteq> []"
  have "keepItem parseDate now False sel =
          (\<lambda>item. ''Unknown'' \<in> set (selectedAreaManager sel) \<and>
                   keepItem parseDate now False (sel\<lparr>selectedAreaManager := []\<rparr>) item)"
    by (rule ext) (rule keepItem_unmerged_areaManager [OF a])
  then show "filteredData parseDate now False sel data =
        (if ''Unknown'' \<in> set (selectedAreaManager sel)
         then filteredData parseDate now False (sel\<lparr>selectedAreaManager := []\<rparr>) data else [])"
    unfolding filteredData_def by (simp only: filter_const_conj)
next
  assume a: "selectedTrainer sel \<noteq> []"
  have "keepItem parseDate now False sel =
          (\<lambda>item. ''Unknown'' \<in> set (selectedTrainer sel) \<and>
                   keepItem parseDate now False (sel\<lparr>selectedTrainer := []\<rparr>) item)"
    by (rule ext) (rule keepItem_unmerged_trainer [OF a])
  then show "filteredData parseDate now False sel data =
        (if ''Unknown'' \<in> set (selectedTrainer sel)
         then filteredData parseDate now False (sel\<lparr>selectedTrainer := []\<rparr>) data else [])"
    unfolding filteredData_def by (simp only: filter_const_conj)
qed

text \<open>
  C10 on the sample rows: selecting the store \<open>Downtown\<close> gives no row, selecting the
  trainers \<open>Ravi\<close> and \<open>Unknown\<close> gives every row.
\<close>

theorem filteredData_unmerged_witness:
  "filteredData sampleParseDate sampleNow False (noSelection\<lparr>selectedStore := [''Downtown'']\<rparr>)
     [rowA, rowB, rowC] = [] \<and>
   filteredData sampleParseDate sampleNow False
     (noSelection\<lparr>selectedTrainer := [''Ravi'', ''Unknown'']\<rparr>) [rowA, rowB, rowC]
     = [rowA, rowB, rowC]"
proof -
  have "filteredData sampleParseDate sampleNow False (noSelection\<lparr>selectedStore := [''Downtown'']\<rparr>)
     [rowA, rowB, rowC] = []"
    using filteredData_unmerged [of "noSelection\<lparr>selectedStore := [''Downtown'']\<rparr>"
        sampleParseDate sampleNow "[rowA, rowB, rowC]"]
    by (simp add: noSelection_def)
  moreover have "filteredData sampleParseDate sampleNow False
     (noSelection\<lparr>selectedTrainer := [''Ravi'', ''Unknown'']\<rparr>) [rowA, rowB, rowC]
     = [rowA, rowB, rowC]"
    using filteredData_unmerged [of "noSelection\<lparr>selectedTrainer := [''Ravi'', ''Unknown'']\<rparr>"
        sampleParseDate sampleNow "[rowA, rowB, rowC]"]
      filteredData_unconstrained [of sampleParseDate sampleNow False "[rowA, rowB, rowC]"]
    by (simp add: noSelection_def)
  ultimately show ?thesis by simp
qed






section \<open>Row normalisation\<close>

text \<open>
  C7. The claim: \<open>course_completion_hours\<close> and \<open>course_progress\<close> default to \<open>0\<close>
  when the cell fails to parse, and no normalised row carries \<open>NaN\<close>. The mapper guards
  the absent and the empty cell only: for the cells \<open>abc\<close> and \<open>n/a\<close> both fields are
  \<open>NaN\<close>.
\<close>

theorem normalizeRow_unparseable_number:
  "course_completion_hours
     (normalizeRow [(''employee_code'', ''E1''), (''course_completion_hours'', ''abc''),
                    (''course_progress'', ''n/a'')]) = NaN \<and>
   course_progress
     (normalizeRow [(''employee_code'', ''E1''), (''course_completion_hours'', ''abc''),
                    (''course_progress'', ''n/a'')]) = NaN"
  by (simp add: normalizeRow_def cleanedD_def cleanKey_def trim_def isSpace_def
      parseFloat_def parseUnsigned_def isDigit_def)

section \<open>Directory merge\<close>

lemma storeMap_snoc:
  "storeMap (dir @ [s]) =
     (storeMap dir)(Store_ID s \<mapsto>
        [''location'' \<mapsto> location s, ''Region'' \<mapsto> Region s,
         ''AM'' \<mapsto> AM s, ''Trainer'' \<mapsto> Trainer s])"
  by (simp add: storeMap_def)

lemma storeMap_None_iff: "(storeMap dir sid = None) = (sid \<notin> Store_ID ` set dir)"
proof (induction dir rule: rev_induct)
  case Nil
  show ?case by (simp add: storeMap_def)
next
  case (snoc s dir)
  then show ?case by (simp add: storeMap_snoc)
qed

lemma storeMap_info_dom:
  "storeMap dir sid = Some info \<Longrightarrow> dom info = {''location'', ''Region'', ''AM'', ''Trainer''}"
proof (induction dir rule: rev_induct)
  case Nil
  then show ?case by (simp add: storeMap_def)
next
  case (snoc s dir)
  then show ?case by (auto simp: storeMap_snoc split: if_splits)
qed

lemma storeMap_None: "sid \<notin> Store_ID ` set dir \<Longrightarrow> storeMap dir sid = None"
  by (simp add: storeMap_None_iff)

lemma mergeWithStoreData_nth:
  "i < length data \<Longrightarrow>
   mergeWithStoreData dir data ! i =
     (case (case cols (data ! i) ''Store ID'' of None \<Rightarrow> None
            | Some sid \<Rightarrow> if sid \<noteq> [] then storeMap dir sid else None) of
        None \<Rightarrow> data ! i
      | Some info \<Rightarrow> (data ! i)\<lparr>cols := cols (data ! i) ++ info\<rparr>)"
  by (simp add: mergeWithStoreData_def)

text \<open>
  C4, as amended. The merge never drops a row: the output has the input's length, and the
  row at each position keeps its two numeric fields and every column other than
  \<open>location\<close>, \<open>Region\<close>, \<open>AM\<close> and \<open>Trainer\<close>. When the row's store identifier
  is absent, empty or not in the directory, the merged row is the input row unchanged: the
  merge adds no directory column, so a column the row did not have stays absent.
\<close>

theorem mergeWithStoreData_left_join:
  assumes "i < length data"
  shows "length (mergeWithStoreData dir data) = length data \<and>
     course_completion_hours (mergeWithStoreData dir data ! i) = course_completion_hours (data ! i) \<and>
     course_progress (mergeWithStoreData dir data ! i) = course_progress (data ! i) \<and>
     (\<forall>k. k \<notin> {''location'', ''Region'', ''AM'', ''Trainer''} \<longrightarrow>
          cols (mergeWithStoreData dir data ! i) k = cols (data ! i) k) \<and>
     ((case cols (data ! i) ''Store ID'' of None \<Rightarrow> True
       | Some sid \<Rightarrow> sid = [] \<or> sid \<notin> Store_ID ` set dir) \<longrightarrow>
        mergeWithStoreData dir data ! i = data ! i)"
proof (intro conjI allI impI)
  show "length (mergeWithStoreData dir data) = length data"
    by (simp add: mergeWithStoreData_def)
next
  show "course_completion_hours (mergeWithStoreData dir data ! i) = course_completion_hours (data ! i)"
    by (simp add: mergeWithStoreData_nth [OF assms] split: option.splits)
next
  show "course_progress (mergeWithStoreData dir data ! i) = course_progress (data ! i)"
    by (simp add: mergeWithStoreData_nth [OF assms] split: option.splits)
next
  fix k :: string
  assume k: "k \<notin> {''location'', ''Region'', ''AM'', ''Trainer''}"
  show "cols (mergeWithStoreData dir data ! i) k = cols (data ! i) k"
  proof (cases "case cols (data ! i) ''Store ID'' of None \<Rightarrow> None
            | Some sid \<Rightarrow> if sid \<noteq> [] then storeMap dir sid else None")
    case None
    then show ?thesis by (simp add: mergeWithStoreData_nth [OF assms])
  next
    case (Some info)
    then obtain sid where "storeMap dir sid = Some info"
      by (auto split: option.splits if_splits)
    then have "info k = None"
      using storeMap_info_dom k by blast
    with Some show ?thesis
      by (simp add: mergeWithStoreData_nth [OF assms] map_add_def)
  qed
next
  assume "case cols (data ! i) ''Store ID'' of None \<Rightarrow> True
       | Some sid \<Rightarrow> sid = [] \<or> sid \<notin> Store_ID ` set dir"
  then show "mergeWithStoreData dir data ! i = data ! i"
    by (auto simp: mergeWithStoreData_nth [OF assms] storeMap_None split: option.splits)
qed

text \<open>
  C4 on the sample rows: three rows in, three rows out; the row without a store identifier
  and the row of the unmapped store \<open>S2\<close> come out as they went in.
\<close>

theorem mergeWithStoreData_left_join_witness:
  "length (mergeWithStoreData sampleDirectory [rowA, rowD, rowC]) = 3 \<and>
   mergeWithStoreData sampleDirectory [rowA, rowD, rowC] ! 1 = rowD \<and>
   mergeWithStoreData sampleDirectory [rowA, rowD, rowC] ! 2 = rowC \<and>
   cols (mergeWithStoreData sampleDirectory [rowA, rowD, rowC] ! 0) ''employee_code'' = Some ''E1''"
  using mergeWithStoreData_left_join [of 1 "[rowA, rowD, rowC]" sampleDirectory]
    mergeWithStoreData_left_join [of 2 "[rowA, rowD, rowC]" sampleDirectory]
    mergeWithStoreData_left_join [of 0 "[rowA, rowD, rowC]" sampleDirectory]
  by (simp add: rowA_def rowC_def rowD_def sampleDirectory_def)

text \<open>
  C4 as stated fails: after the merge, the row without a store identifier and the row of
  the unmapped store have no \<open>location\<close> column, not the column \<open>Unknown\<close>.
\<close>

theorem mergeWithStoreData_unknown_counterexample:
  "mergeWithStoreData sampleDirectory [rowD, rowC] = [rowD, rowC] \<and>
   cols rowD ''Store ID'' = None \<and> cols rowD ''location'' = None \<and>
   cols rowD ''location'' \<noteq> Some ''Unknown'' \<and>
   cols rowC ''Store ID'' = Some ''S2'' \<and> cols rowC ''location'' = None \<and>
   cols rowC ''location'' \<noteq> Some ''Unknown''"
  by (simp add: mergeWithStoreData_def storeMap_def sampleDirectory_def rowC_def rowD_def)

section \<open>Grouping: shared facts\<close>

lemma updateEntry_keys: "map fst (updateEntry k f ps) = map fst ps"
  by (induction ps) auto

lemma updateEntry_map_of:
  "map_of (updateEntry k f ps) =
     (case map_of ps k of None \<Rightarrow> map_of ps | Some v \<Rightarrow> (map_of ps)(k \<mapsto> f v))"
  by (induction ps) (auto simp: fun_eq_iff split: option.splits)

lemma hasOwn_keys: "hasOwn obj k = (k \<in> set (map fst obj))"
  by (simp add: hasOwn_def)

lemma filter_key_absent:
  "key \<notin> set (map f xs) \<Longrightarrow> filter (\<lambda>r. f r = key) xs = []"
  by (induction xs) auto

lemma filter_key_absent_conj:
  "key \<notin> set (map f xs) \<Longrightarrow> filter (\<lambda>r. f r = key \<and> P r) xs = []"
  by (induction xs) auto

section \<open>Completion rate by group\<close>

lemma tallyStep_keys:
  "map fst (tallyStep keyOf acc record) =
     (if keyOf record \<in> set (map fst acc) \<or> keyOf record \<in> set objectPrototypeKeys
      then map fst acc else map fst acc @ [keyOf record])"
  by (simp add: tallyStep_def Let_def updateEntry_keys hasOwn_keys)

lemma tallyStep_map_of:
  "map_of (tallyStep keyOf acc record) =
     (case map_of acc (keyOf record) of
        Some t \<Rightarrow> (map_of acc)(keyOf record \<mapsto>
            countRecord (cols record ''course_completion_status'' = Some ''Completed'') t)
      | None \<Rightarrow>
          if keyOf record \<in> set objectPrototypeKeys then map_of acc
          else (map_of acc)(keyOf record \<mapsto>
            countRecord (cols record ''course_completion_status'' = Some ''Completed'')
              \<lparr>total = 0, completed = 0\<rparr>))"
proof (cases "map_of acc (keyOf record)")
  case None
  then have "keyOf record \<notin> set (map fst acc)"
    by (simp add: map_of_eq_None_iff)
  with None show ?thesis
    by (simp add: tallyStep_def Let_def hasOwn_keys map_add_def fun_eq_iff split: option.splits)
next
  case (Some t)
  then have "keyOf record \<in> set (map fst acc)"
    by (metis map_of_eq_None_iff option.distinct(1) set_map)
  with Some show ?thesis
    by (simp add: tallyStep_def Let_def hasOwn_keys updateEntry_map_of)
qed

lemma countRecord_fields:
  "total (countRecord c t) = total t + 1 \<and>
   completed (countRecord c t) = completed t + (if c then 1 else 0)"
  by (simp add: countRecord_def Let_def)

lemma tallyInv_step:
  assumes "tallyInv keyOf processed acc"
  shows "tallyInv keyOf (processed @ [record]) (tallyStep keyOf acc record)"
proof -
  let ?k = "keyOf record"
  let ?c = "cols record ''course_completion_status'' = Some ''Completed''"
  from assms have d: "distinct (map fst acc)"
    and ks: "set (map fst acc) = set (map keyOf processed) - set objectPrototypeKeys"
    and ok: "\<And>k t. map_of acc k = Some t \<Longrightarrow> tallyOk keyOf processed k t"
    by (auto simp: tallyInv_def)
  have "distinct (map fst (tallyStep keyOf acc record))"
    using d by (simp add: tallyStep_keys)
  moreover have "set (map fst (tallyStep keyOf acc record)) =
      set (map keyOf (processed @ [record])) - set objectPrototypeKeys"
    using ks by (auto simp: tallyStep_keys)
  moreover have "tallyOk keyOf (processed @ [record]) k t"
    if h: "map_of (tallyStep keyOf acc record) k = Some t" for k t
  proof (cases "k = ?k")
    case False
    with h have "map_of acc k = Some t"
      by (simp add: tallyStep_map_of split: option.splits if_splits)
    from ok [OF this] False show ?thesis by (simp add: tallyOk_def)
  next
    case True
    show ?thesis
    proof (cases "map_of acc ?k")
      case (Some t0)
      with h True have "t = countRecord ?c t0" by (simp add: tallyStep_map_of)
      with ok [OF Some] True show ?thesis
        by (simp add: tallyOk_def countRecord_fields)
    next
      case None
      then have nk: "?k \<notin> set (map fst acc)" by (simp add: map_of_eq_None_iff)
      from h True None have np: "?k \<notin> set objectPrototypeKeys"
        and t: "t = countRecord ?c \<lparr>total = 0, completed = 0\<rparr>"
        by (auto simp: tallyStep_map_of split: if_splits)
      from nk np ks have "?k \<notin> set (map keyOf processed)" by blast
      from filter_key_absent [OF this] filter_key_absent_conj [OF this] t True show ?thesis
        by (simp add: tallyOk_def countRecord_fields)
    qed
  qed
  ultimately show ?thesis by (simp add: tallyInv_def)
qed

lemma tallyInv_tallyBy: "tallyInv keyOf data (tallyBy keyOf data)"
  unfolding tallyBy_def
proof (induction data rule: rev_induct)
  case Nil
  show ?case by (simp add: tallyInv_def)
next
  case (snoc row rows)
  then show ?case by (simp add: tallyInv_step)
qed

lemma percentage_bounds:
  fixes a b :: rat
  assumes "0 \<le> a" and "a \<le> b" and "0 < b"
  shows "0 \<le> a / b * 100 \<and> a / b * 100 \<le> 100"
proof -
  from assms have q1: "a / b \<le> 1" by (simp add: divide_le_eq_1)
  from assms have q0: "0 \<le> a / b" by simp
  from q1 have "a / b * 100 \<le> 1 * 100" by (rule mult_right_mono) simp
  moreover from q0 have "0 \<le> a / b * 100" by (rule mult_nonneg_nonneg) simp
  ultimately show ?thesis by simp
qed

lemma completionRate_bounded:
  assumes "1 \<le> total t" and "completed t \<le> total t"
  shows "completionRate t = Fin (of_nat (completed t) / of_nat (total t) * 100) \<and>
         js_le (Fin 0) (completionRate t) \<and> js_le (completionRate t) (Fin 100)"
proof -
  from assms have pos: "(0::rat) < of_nat (total t)" by simp
  from assms have le: "(of_nat (completed t) :: rat) \<le> of_nat (total t)" by simp
  have r: "completionRate t = Fin (of_nat (completed t) / of_nat (total t) * 100)"
    using pos by (simp add: completionRate_def)
  from percentage_bounds [OF _ le pos] show ?thesis
    unfolding r by simp
qed

lemma set_insertBy: "set (insertBy cmp x ys) = insert x (set ys)"
  by (induction ys) auto

lemma set_sortBy: "set (sortBy cmp xs) = set xs"
  by (induction xs) (simp_all add: sortBy_def set_insertBy)

lemma length_insertBy: "length (insertBy cmp x ys) = Suc (length ys)"
  by (induction ys) auto

lemma length_sortBy: "length (sortBy cmp xs) = length xs"
  by (induction xs) (simp_all add: sortBy_def length_insertBy)

lemma set_objectEntries: "set (objectEntries obj) = set obj"
  by (auto simp: objectEntries_def)

lemma length_objectEntries: "length (objectEntries obj) = length obj"
  by (simp add: objectEntries_def sum_length_filter_compl)

lemma set_chartRows:
  "set (chartRows obj) = (\<lambda>(key, t). \<lparr>name = key, Completion_Rate = completionRate t\<rparr>) ` set obj"
  by (simp add: chartRows_def set_sortBy set_objectEntries)

lemma sample_trainerData:
  "trainerData (mergeWithStoreData sampleDirectory [rowA, rowB, rowC]) =
     [(''Ravi'', \<lparr>total = 2, completed = 1\<rparr>), (''Unknown'', \<lparr>total = 1, completed = 1\<rparr>)]"
  by (simp add: trainerData_def tallyBy_def tallyStep_def hasOwn_def countRecord_def
      objectPrototypeKeys_def mergeWithStoreData_def storeMap_def sampleDirectory_def
      rowA_def rowB_def rowC_def orElse_def Let_def)

lemma sample_chartData:
  "chartData (mergeWithStoreData sampleDirectory [rowA, rowB, rowC]) =
     [\<lparr>name = ''Unknown'', Completion_Rate = Fin 100\<rparr>, \<lparr>name = ''Ravi'', Completion_Rate = Fin 50\<rparr>]"
  by (simp add: chartData_def sample_trainerData chartRows_def objectEntries_def isArrayIndex_def
      isDigit_def sortBy_def completionRate_def)

text \<open>
  C8. For every row list and every key expression, each bucket the reducer emits has
  \<open>total \<ge> 1\<close> and \<open>completed \<le> total\<close>; its total is the number of rows with that
  key; its rate \<open>(completed / total) * 100\<close> is a finite number between 0 and 100 (never
  \<open>NaN\<close>). Each chart row carries the rate of one emitted bucket, there is one chart row
  per bucket, and no key has two buckets. The rate is the exact value; binary64 division and multiplication are
  monotone and represent 0, 1 and 100 exactly, so the computed rate has the same bounds.
\<close>

theorem tally_buckets_bounded:
  "(\<forall>(key, t) \<in> set (tallyBy keyOf data).
      1 \<le> total t \<and> completed t \<le> total t \<and>
      total t = length (filter (\<lambda>record. keyOf record = key) data) \<and>
      completionRate t = Fin (of_nat (completed t) / of_nat (total t) * 100) \<and>
      js_le (Fin 0) (completionRate t) \<and> js_le (completionRate t) (Fin 100)) \<and>
   (\<forall>e \<in> set (chartRows (tallyBy keyOf data)).
      (\<exists>t. (name e, t) \<in> set (tallyBy keyOf data) \<and> Completion_Rate e = completionRate t) \<and>
      js_le (Fin 0) (Completion_Rate e) \<and> js_le (Completion_Rate e) (Fin 100)) \<and>
   length (chartRows (tallyBy keyOf data)) = length (tallyBy keyOf data) \<and>
   distinct (map fst (tallyBy keyOf data))"
proof -
  let ?acc = "tallyBy keyOf data"
  have inv: "tallyInv keyOf data ?acc" by (rule tallyInv_tallyBy)
  then have d: "distinct (map fst ?acc)" by (simp add: tallyInv_def)
  have bucket: "1 \<le> total t \<and> completed t \<le> total t \<and>
      total t = length (filter (\<lambda>record. keyOf record = key) data) \<and>
      completionRate t = Fin (of_nat (completed t) / of_nat (total t) * 100) \<and>
      js_le (Fin 0) (completionRate t) \<and> js_le (completionRate t) (Fin 100)"
    if m: "(key, t) \<in> set ?acc" for key t
  proof -
    from m d have "map_of ?acc key = Some t" by simp
    with inv have ok: "tallyOk keyOf data key t" by (simp add: tallyInv_def)
    from m have "key \<in> set (map fst ?acc)" by force
    with inv have "key \<in> set (map keyOf data)" by (simp add: tallyInv_def)
    then have "filter (\<lambda>record. keyOf record = key) data \<noteq> []"
      by (auto simp: filter_empty_conv)
    with ok have t1: "1 \<le> total t"
      by (simp add: tallyOk_def Suc_le_eq)
    have "length (filter (\<lambda>record. keyOf record = key \<and>
                          cols record ''course_completion_status'' = Some ''Completed'') data)
        \<le> length (filter (\<lambda>record. keyOf record = key) data)"
      by (induction data) auto
    with ok have t2: "completed t \<le> total t" by (simp add: tallyOk_def)
    from ok have t3: "total t = length (filter (\<lambda>record. keyOf record = key) data)"
      by (simp add: tallyOk_def)
    from t1 t2 t3 completionRate_bounded [OF t1 t2] show ?thesis by blast
  qed
  have "(\<exists>t. (name e, t) \<in> set ?acc \<and> Completion_Rate e = completionRate t) \<and>
      js_le (Fin 0) (Completion_Rate e) \<and> js_le (Completion_Rate e) (Fin 100)"
    if "e \<in> set (chartRows ?acc)" for e
  proof -
    from that obtain key t where m: "(key, t) \<in> set ?acc"
      and e: "e = \<lparr>name = key, Completion_Rate = completionRate t\<rparr>"
      by (auto simp: set_chartRows)
    from bucket [OF m] m e show ?thesis by auto
  qed
  moreover have "length (chartRows ?acc) = length ?acc"
    by (simp add: chartRows_def length_sortBy length_objectEntries)
  ultimately show ?thesis using bucket d by blast
qed

text \<open>
  C8 on the merged sample rows, grouped by trainer: \<open>Ravi\<close> has 1 of 2 completed (50),
  \<open>Unknown\<close> 1 of 1 (100), and the chart lists the higher rate first.
\<close>

theorem tally_buckets_bounded_witness:
  "trainerData (mergeWithStoreData sampleDirectory [rowA, rowB, rowC]) =
     [(''Ravi'', \<lparr>total = 2, completed = 1\<rparr>), (''Unknown'', \<lparr>total = 1, completed = 1\<rparr>)] \<and>
   chartData (mergeWithStoreData sampleDirectory [rowA, rowB, rowC]) =
     [\<lparr>name = ''Unknown'', Completion_Rate = Fin 100\<rparr>, \<lparr>name = ''Ravi'', Completion_Rate = Fin 50\<rparr>] \<and>
   list_all (\<lambda>(key, t). 1 \<le> total t \<and> completed t \<le> total t \<and>
                js_le (Fin 0) (completionRate t) \<and> js_le (completionRate t) (Fin 100))
     (trainerData (mergeWithStoreData sampleDirectory [rowA, rowB, rowC])) \<and>
   list_all (\<lambda>e. js_le (Fin 0) (Completion_Rate e) \<and> js_le (Completion_Rate e) (Fin 100))
     (chartData (mergeWithStoreData sampleDirectory [rowA, rowB, rowC]))"
proof -
  let ?data = "mergeWithStoreData sampleDirectory [rowA, rowB, rowC]"
  note t = tally_buckets_bounded [of "\<lambda>record. orElse (cols record ''Trainer'') ''Unknown''" ?data]
  from t have "list_all (\<lambda>(key, t). 1 \<le> total t \<and> completed t \<le> total t \<and>
                js_le (Fin 0) (completionRate t) \<and> js_le (completionRate t) (Fin 100))
     (trainerData ?data)"
    unfolding trainerData_def list_all_iff by blast
  moreover from t have
    "list_all (\<lambda>e. js_le (Fin 0) (Completion_Rate e) \<and> js_le (Completion_Rate e) (Fin 100))
       (chartData ?data)"
    unfolding chartData_def trainerData_def list_all_iff by blast
  ultimately show ?thesis
    using sample_trainerData sample_chartData by blast
qed

section \<open>Binary64 rounding\<close>























section \<open>Employee rollup\<close>












end
